theory Spec2Isabelle
  imports Complex_Main "HOL-Library.Multiset"
begin

section \<open>JavaScript numbers\<close>

text \<open>
  Every number of the program is a JavaScript Number, an IEEE 754 binary64 value. A finite
  value is kept as the rational it denotes; the two infinities and NaN are values of their
  own. The sign of a zero is not tracked: it would only show in the sign of the infinity of
  a division by a negative zero, and no divisor of the planners can be one.
\<close>

datatype jsnum = Fin rat | PInf | NInf | NaN

text \<open>The number of binary digits of a natural number.\<close>

fun bit_length :: "nat \<Rightarrow> nat" where
  "bit_length n = (if n = 0 then 0 else Suc (bit_length (n div 2)))"

declare bit_length.simps [simp del]

text \<open>The binary exponent of a positive rational: \<open>2 ^ ilog2 x \<le> x < 2 ^ (ilog2 x + 1)\<close>.\<close>

definition ilog2 :: "rat \<Rightarrow> int" where
  "ilog2 x =
     (if 1 \<le> x then int (bit_length (nat \<lfloor>x\<rfloor>)) - 1
      else - int (bit_length (nat (\<lceil>1 / x\<rceil> - 1))))"

definition pow2 :: "int \<Rightarrow> rat" where
  "pow2 k = (if 0 \<le> k then 2 ^ nat k else 1 / 2 ^ nat (- k))"

text \<open>Rounding to the nearest integer, a tie to the even one.\<close>

definition rne :: "rat \<Rightarrow> int" where
  "rne m =
     (let f = \<lfloor>m\<rfloor>; d = m - of_int f
      in if d < 1 / 2 then f
         else if 1 / 2 < d then f + 1
         else if even f then f else f + 1)"

text \<open>
  The binary64 value nearest to a positive rational, with an unbounded exponent above:
  53 significant bits, and the fixed spacing \<open>2 ^ -1074\<close> in the subnormal range.
\<close>

definition round_pos :: "rat \<Rightarrow> rat" where
  "round_pos x =
     (let p = max (ilog2 x - 52) (- 1074)
      in of_int (rne (x / pow2 p)) * pow2 p)"

text \<open>
  The result of an arithmetic operation whose exact value is \<open>x\<close>: rounded to nearest,
  ties to even, and an infinity when the rounded value leaves the binary64 range.
\<close>

definition fl :: "rat \<Rightarrow> jsnum" where
  "fl x =
     (if x = 0 then Fin 0
      else if 0 < x
        then (let r = round_pos x in if pow2 1024 \<le> r then PInf else Fin r)
        else (let r = round_pos (- x) in if pow2 1024 \<le> r then NInf else Fin (- r)))"

text \<open>The operator \<open>*\<close>.\<close>

fun jmul :: "jsnum \<Rightarrow> jsnum \<Rightarrow> jsnum" where
  "jmul (Fin a) (Fin b) = fl (a * b)"
| "jmul NaN _ = NaN"
| "jmul _ NaN = NaN"
| "jmul PInf (Fin b) = (if b = 0 then NaN else if 0 < b then PInf else NInf)"
| "jmul NInf (Fin b) = (if b = 0 then NaN else if 0 < b then NInf else PInf)"
| "jmul (Fin a) PInf = (if a = 0 then NaN else if 0 < a then PInf else NInf)"
| "jmul (Fin a) NInf = (if a = 0 then NaN else if 0 < a then NInf else PInf)"
| "jmul PInf PInf = PInf"
| "jmul PInf NInf = NInf"
| "jmul NInf PInf = NInf"
| "jmul NInf NInf = PInf"

text \<open>The operator \<open>/\<close>: a division by zero is an infinity, or NaN for \<open>0 / 0\<close>.\<close>

fun jdiv :: "jsnum \<Rightarrow> jsnum \<Rightarrow> jsnum" where
  "jdiv (Fin a) (Fin b) =
     (if b = 0 then (if a = 0 then NaN else if 0 < a then PInf else NInf)
      else fl (a / b))"
| "jdiv NaN _ = NaN"
| "jdiv _ NaN = NaN"
| "jdiv (Fin a) PInf = Fin 0"
| "jdiv (Fin a) NInf = Fin 0"
| "jdiv PInf (Fin b) = (if 0 \<le> b then PInf else NInf)"
| "jdiv NInf (Fin b) = (if 0 \<le> b then NInf else PInf)"
| "jdiv PInf PInf = NaN"
| "jdiv PInf NInf = NaN"
| "jdiv NInf PInf = NaN"
| "jdiv NInf NInf = NaN"

text \<open>The operator \<open>+\<close> on numbers.\<close>

fun jadd :: "jsnum \<Rightarrow> jsnum \<Rightarrow> jsnum" where
  "jadd (Fin a) (Fin b) = fl (a + b)"
| "jadd NaN _ = NaN"
| "jadd _ NaN = NaN"
| "jadd PInf NInf = NaN"
| "jadd NInf PInf = NaN"
| "jadd PInf _ = PInf"
| "jadd NInf _ = NInf"
| "jadd (Fin a) PInf = PInf"
| "jadd (Fin a) NInf = NInf"

text \<open>The comparisons \<open><\<close> and \<open><=\<close>: false as soon as one side is NaN.\<close>

fun jlt :: "jsnum \<Rightarrow> jsnum \<Rightarrow> bool" where
  "jlt (Fin a) (Fin b) = (a < b)"
| "jlt NaN _ = False"
| "jlt _ NaN = False"
| "jlt _ NInf = False"
| "jlt PInf _ = False"
| "jlt NInf _ = True"
| "jlt (Fin a) PInf = True"

fun jle :: "jsnum \<Rightarrow> jsnum \<Rightarrow> bool" where
  "jle (Fin a) (Fin b) = (a \<le> b)"
| "jle NaN _ = False"
| "jle _ NaN = False"
| "jle NInf _ = True"
| "jle _ PInf = True"
| "jle PInf _ = False"
| "jle (Fin a) NInf = False"

text \<open>The comparisons \<open>>\<close> and \<open>>=\<close>.\<close>

definition jgt :: "jsnum \<Rightarrow> jsnum \<Rightarrow> bool" where
  "jgt a b = jlt b a"

definition jge :: "jsnum \<Rightarrow> jsnum \<Rightarrow> bool" where
  "jge a b = jle b a"

text \<open>\<open>Math.round\<close>: the nearest integer, a tie upwards; infinities and NaN stay.\<close>

fun jround :: "jsnum \<Rightarrow> jsnum" where
  "jround (Fin x) = Fin (of_int \<lfloor>x + 1 / 2\<rfloor>)"
| "jround PInf = PInf"
| "jround NInf = NInf"
| "jround NaN = NaN"

text \<open>\<open>Math.max\<close> of two numbers.\<close>

definition jmax :: "jsnum \<Rightarrow> jsnum \<Rightarrow> jsnum" where
  "jmax a b = (if a = NaN \<or> b = NaN then NaN else if jlt a b then b else a)"

text \<open>A number is falsy when it is zero or NaN.\<close>

definition truthy :: "jsnum \<Rightarrow> bool" where
  "truthy n = (n \<noteq> Fin 0 \<and> n \<noteq> NaN)"

text \<open>The Number of a natural number that binary64 holds exactly (below \<open>2 ^ 53\<close>).\<close>

definition num :: "nat \<Rightarrow> jsnum" where
  "num n = Fin (of_nat n)"

section \<open>The geometry planners\<close>

text \<open>
  The image handle of the codec: the planners only call \<open>image.width()\<close> and
  \<open>image.height()\<close>.
\<close>

record image =
  imageWidth :: jsnum
  imageHeight :: jsnum

text \<open>The object \<open>{width: ..., height: ...}\<close> a planner returns.\<close>

record dimensions =
  dim_width :: jsnum
  dim_height :: jsnum

definition getCropDimensions :: "image \<Rightarrow> jsnum \<Rightarrow> jsnum \<Rightarrow> dimensions" where
  "getCropDimensions img width height =
     (let ratio_img = jdiv (imageWidth img) (imageHeight img);
          ratio_crop = jdiv width height
      in if jgt ratio_img ratio_crop
         then (let h = height; w = jmul h ratio_img
               in \<lparr>dim_width = jround w, dim_height = jround h\<rparr>)
         else (let w = width; h = jdiv w ratio_img
               in \<lparr>dim_width = jround w, dim_height = jround h\<rparr>))"

text \<open>
  \<open>adaptDimensions\<close> assigns to its parameters; \<open>width1\<close>, \<open>height1\<close> are their values
  after the first \<open>if\<close> of a branch, \<open>width2\<close> or \<open>height2\<close> after the second.
\<close>

definition adaptDimensions :: "image \<Rightarrow> jsnum \<Rightarrow> jsnum \<Rightarrow> dimensions" where
  "adaptDimensions img width height =
     (let container_ratio = jdiv width height;
          img_ratio = jdiv (imageWidth img) (imageHeight img)
      in if jgt container_ratio img_ratio
         then (let (height1, width1) =
                     (if jlt (imageHeight img) height
                      then (imageHeight img, imageWidth img) else (height, width));
                   width2 =
                     (if jgt (imageHeight img) height1
                      then jdiv (jmul (imageWidth img) height1) (imageHeight img)
                      else width1)
               in \<lparr>dim_width = jround width2, dim_height = jround height1\<rparr>)
         else (let (width1, height1) =
                     (if jlt (imageWidth img) width
                      then (imageWidth img, imageHeight img) else (width, height));
                   height2 =
                     (if jge (imageWidth img) width1
                      then jdiv (jmul (imageHeight img) width1) (imageWidth img)
                      else height1)
               in \<lparr>dim_width = jround width1, dim_height = jround height2\<rparr>))"

definition getDimensionsWidthMax :: "image \<Rightarrow> jsnum \<Rightarrow> dimensions" where
  "getDimensionsWidthMax img width =
     (let height = jdiv (jmul (imageHeight img) width) (imageWidth img)
      in if jgt height (imageHeight img)
         then \<lparr>dim_width = jround (imageWidth img), dim_height = jround (imageHeight img)\<rparr>
         else \<lparr>dim_width = jround width, dim_height = jround height\<rparr>)"

definition getDimensionsHeightMax :: "image \<Rightarrow> jsnum \<Rightarrow> dimensions" where
  "getDimensionsHeightMax img height =
     (let width = jdiv (jmul (imageWidth img) height) (imageHeight img)
      in if jgt width (imageWidth img)
         then \<lparr>dim_width = jround (imageWidth img), dim_height = jround (imageHeight img)\<rparr>
         else \<lparr>dim_width = jround width, dim_height = jround height\<rparr>)"

section \<open>The configuration and the collaborators\<close>

text \<open>
  The value of \<open>c.adapt\<close> when it is present: a boolean, a number, or an object whose
  \<open>width\<close> and \<open>height\<close> may be missing.
\<close>

datatype adapt = AdaptBoolean bool | AdaptNumber jsnum | AdaptObject "jsnum option" "jsnum option"

text \<open>
  One entry \<open>c\<close> of \<open>config.files\<close>. A field that may be left out is an option;
  \<open>crop\<close> and \<open>omitExtension\<close> are read for their truth value only.
\<close>

record variant =
  c_key :: "string option"
  c_name :: "string option"
  c_format :: "string option"
  c_width :: "jsnum option"
  c_height :: "jsnum option"
  c_top :: "jsnum option"
  c_left :: "jsnum option"
  c_crop :: bool
  c_adapt :: "adapt option"
  c_omitExtension :: bool
  c_colorPad :: "string option"

text \<open>\<open>config.files\<close>: left out, present but no array, or an array of entries.\<close>

datatype files = FilesUndefined | FilesNotArray | FilesArray "variant list"

record config =
  cfg_format :: "string option"
  cfg_omitExtension :: bool
  cfg_colorPad :: "string option"
  cfg_files :: files

record globalConfig =
  staticUrl :: string
  resizeLimit :: "nat option"

type_synonym bytes = "nat list"

text \<open>
  The \<open>source\<close> argument: a file name, an upload object of Multer with its optional
  \<open>mimetype\<close> and its buffer, or nothing.
\<close>

datatype source = SourcePath string | SourceUpload "string option" bytes | SourceMissing

text \<open>What \<open>lwip.open\<close> receives: the file name, or a new buffer of the upload's bytes.\<close>

datatype string_or_buffer = OpenPath string | OpenBuffer bytes

text \<open>
  The errors the callback can receive: the two \<open>new Error(...)\<close> of \<open>upload\<close>
  (no image type; no \<open>files\<close> array), and an error a collaborator reported, which the
  code hands on as it is.
\<close>

datatype error = UnknownType | InvalidConfig | Collaborator string

text \<open>
  An argument of a codec operation: a number, the value \<open>false\<close> (of \<open>c.width || false\<close>),
  or the \<open>adapt\<close> object handed on as it is.
\<close>

datatype arg = Number jsnum | JsFalse | Object "jsnum option" "jsnum option"

text \<open>
  The operations queued on \<open>image.batch()\<close>: \<open>contain(w, h, color)\<close>, \<open>resize(w, h)\<close>,
  \<open>crop(left, top, right, bottom)\<close> and \<open>crop(width, height)\<close>.
\<close>

datatype operation =
    Contain arg arg string
  | Resize jsnum jsnum
  | Crop4 jsnum jsnum jsnum jsnum
  | Crop2 arg arg

text \<open>The entry \<open>{url: ..., filename: ...}\<close> stored in \<open>images\<close>.\<close>

record uploaded =
  url :: string
  filename :: string

text \<open>
  The collaborators, outside the repository: the codec (\<open>lwip.open\<close>, and
  \<open>batch.toBuffer\<close> that runs the queued operations and encodes), the templater
  (\<open>lodash.template(format)(c)\<close>) and the object storage (\<open>os.uploadFromBuffer\<close>). Each is a
  parameter; an asynchronous one answers with an error or a value. The templater is called
  in place and returns the compiled name, or throws (\<open>None\<close>): a template can fail to
  compile, or name a field the entry does not have.
\<close>

record collaborators =
  lwip_open :: "string_or_buffer \<Rightarrow> string \<Rightarrow> error + image"
  toBuffer :: "image \<Rightarrow> operation list \<Rightarrow> string \<Rightarrow> error + bytes"
  template :: "string \<Rightarrow> variant \<Rightarrow> string option"
  uploadFromBuffer :: "bytes \<Rightarrow> string \<Rightarrow> error + string"

section \<open>The pipeline of one entry\<close>

text \<open>\<open>s.replace(pat, rep)\<close> with a string pattern: the first occurrence only.\<close>

fun replace_first :: "string \<Rightarrow> string \<Rightarrow> string \<Rightarrow> string" where
  "replace_first pat rep [] = (if pat = [] then rep else [])"
| "replace_first pat rep (x # xs) =
     (if take (length pat) (x # xs) = pat then rep @ drop (length pat) (x # xs)
      else x # replace_first pat rep xs)"

text \<open>\<open>s.split('.').pop()\<close>: what follows the last dot, the whole string without one.\<close>

definition split_pop :: "string \<Rightarrow> string" where
  "split_pop s = rev (takeWhile (\<lambda>x. x \<noteq> CHR ''.'') (rev s))"

text \<open>
  The variable \<open>type\<close> after line 41; \<open>None\<close> is \<open>undefined\<close> or \<open>null\<close>. It is falsy
  when it is \<open>None\<close> or the empty string.
\<close>

definition source_type :: "source \<Rightarrow> string option" where
  "source_type source =
     (case source of
        SourcePath s \<Rightarrow> Some (split_pop s)
      | SourceUpload None b \<Rightarrow> None
      | SourceUpload (Some m) b \<Rightarrow> (if m = [] then Some [] else Some (replace_first ''image/'' [] m))
      | SourceMissing \<Rightarrow> None)"

text \<open>\<open>a || b\<close> on strings: the empty string and a missing value are falsy.\<close>

definition str_or :: "string option \<Rightarrow> string option \<Rightarrow> string option" where
  "str_or a b = (case a of Some (x # xs) \<Rightarrow> Some (x # xs) | _ \<Rightarrow> b)"

text \<open>\<open>v || false\<close> on a number that may be missing: \<open>None\<close> is \<open>false\<close>.\<close>

definition or_false :: "jsnum option \<Rightarrow> jsnum option" where
  "or_false v = (case v of None \<Rightarrow> None | Some n \<Rightarrow> if truthy n then Some n else None)"

text \<open>\<open>v || 0\<close>.\<close>

definition or_zero :: "jsnum option \<Rightarrow> jsnum" where
  "or_zero v = (case v of None \<Rightarrow> Fin 0 | Some n \<Rightarrow> if truthy n then n else Fin 0)"

text \<open>A value of \<open>v || false\<close> as an argument, and as an operand of \<open>+\<close> (\<open>false\<close> is 0).\<close>

definition as_arg :: "jsnum option \<Rightarrow> arg" where
  "as_arg v = (case v of None \<Rightarrow> JsFalse | Some n \<Rightarrow> Number n)"

definition as_number :: "jsnum option \<Rightarrow> jsnum" where
  "as_number v = (case v of None \<Rightarrow> Fin 0 | Some n \<Rightarrow> n)"

text \<open>The \<open>contain\<close> of lines 72 to 78, for a truthy \<open>c.adapt\<close>.\<close>

definition adapt_truthy :: "adapt option \<Rightarrow> bool" where
  "adapt_truthy a =
     (case a of None \<Rightarrow> False | Some (AdaptBoolean b) \<Rightarrow> b
      | Some (AdaptNumber n) \<Rightarrow> truthy n | Some (AdaptObject w h) \<Rightarrow> True)"

definition contain_adapt :: "adapt \<Rightarrow> jsnum \<Rightarrow> jsnum \<Rightarrow> string \<Rightarrow> operation" where
  "contain_adapt a width height colorPad =
     (case a of
        AdaptObject w h \<Rightarrow>
          (if or_false w \<noteq> None \<and> or_false h \<noteq> None
           then Contain (Number (as_number w)) (Number (as_number h)) colorPad
           else Contain (Object w h) (Object w h) colorPad)
      | AdaptBoolean b \<Rightarrow>
          Contain (Number (jmax width height)) (Number (jmax width height)) colorPad
      | AdaptNumber n \<Rightarrow> Contain (Number n) (Number n) colorPad)"

text \<open>
  Lines 57 to 106: the operations queued on the batch of the decoded image, in order.
\<close>

definition batch_operations :: "image \<Rightarrow> config \<Rightarrow> variant \<Rightarrow> operation list" where
  "batch_operations img config c =
     (let width = or_false (c_width c);
          height = or_false (c_height c);
          crop_top = or_zero (c_top c);
          crop_left = or_zero (c_left c);
          colorPad = (case str_or (str_or (c_colorPad c) (cfg_colorPad config)) (Some ''white'')
                      of Some s \<Rightarrow> s | None \<Rightarrow> ''white'')
      in case (width, height) of
           (None, None) \<Rightarrow> []
         | _ \<Rightarrow>
           (case (width, height) of
              (Some w, Some h) \<Rightarrow>
                (if c_crop c
                 then (if adapt_truthy (c_adapt c)
                       then (case c_adapt c of Some a \<Rightarrow> [contain_adapt a w h colorPad] | None \<Rightarrow> [])
                       else (let dim = getCropDimensions img w h
                             in [Resize (dim_width dim) (dim_height dim)]))
                 else (let dim = adaptDimensions img w h
                       in [Resize (dim_width dim) (dim_height dim)]))
            | (Some w, None) \<Rightarrow>
                (let dim = getDimensionsWidthMax img w
                 in [Resize (dim_width dim) (dim_height dim)])
            | (None, Some h) \<Rightarrow>
                (let dim = getDimensionsHeightMax img h
                 in [Resize (dim_width dim) (dim_height dim)])
            | (None, None) \<Rightarrow> [])
           @ (if c_crop c
              then (if jgt crop_top (Fin 0) \<or> jgt crop_left (Fin 0)
                    then [Crop4 crop_left crop_top
                            (jadd crop_left (as_number width)) (jadd crop_top (as_number height))]
                    else [Crop2 (as_arg width) (as_arg height)])
              else []))"

text \<open>The property name \<open>c.key || c.name\<close>; a missing name reads as \<open>undefined\<close>.\<close>

definition image_key :: "variant \<Rightarrow> string" where
  "image_key c =
     (case str_or (c_key c) (c_name c) of Some k \<Rightarrow> k | None \<Rightarrow> ''undefined'')"

text \<open>
  Lines 114 to 116: the name under which the entry is uploaded, \<open>None\<close> when the
  templater throws.
\<close>

definition upload_filename :: "collaborators \<Rightarrow> string \<Rightarrow> config \<Rightarrow> variant \<Rightarrow> string option" where
  "upload_filename os type config c =
     (let default_format = (case str_or (cfg_format config) (Some []) of Some f \<Rightarrow> f | None \<Rightarrow> []);
          compiled = template os (case str_or (c_format c) (Some default_format)
                                  of Some f \<Rightarrow> f | None \<Rightarrow> default_format);
          omit_ext = (c_omitExtension c \<or> cfg_omitExtension config \<or> False)
      in case compiled c of
           None \<Rightarrow> None
         | Some name \<Rightarrow> Some (name @ (if omit_ext then [] else ''.'' @ type)))"

definition open_argument :: "source \<Rightarrow> string_or_buffer" where
  "open_argument source =
     (case source of SourcePath s \<Rightarrow> OpenPath s | SourceUpload m b \<Rightarrow> OpenBuffer b
      | SourceMissing \<Rightarrow> OpenBuffer [])"

text \<open>
  The task pushed for one entry (lines 52 to 129): decode, queue the operations, encode,
  name, upload. It calls \<open>callback\<close> with the error of the first collaborator that fails
  (\<open>Some (Inl err)\<close>), or stores an entry in \<open>images\<close> and calls \<open>callback(null)\<close>
  (\<open>Some (Inr (key, entry))\<close>). When the templater throws, nothing catches the exception
  and \<open>callback\<close> is never called (\<open>None\<close>).
\<close>

definition task :: "collaborators \<Rightarrow> globalConfig \<Rightarrow> source \<Rightarrow> string \<Rightarrow> config \<Rightarrow> variant
    \<Rightarrow> (error + (string \<times> uploaded)) option" where
  "task os globalCfg source type config c =
     (case lwip_open os (open_argument source) type of
        Inl err \<Rightarrow> Some (Inl err)
      | Inr img \<Rightarrow>
          (case toBuffer os img (batch_operations img config c) type of
             Inl err \<Rightarrow> Some (Inl err)
           | Inr buffer \<Rightarrow>
               (case upload_filename os type config c of
                  None \<Rightarrow> None
                | Some name \<Rightarrow>
                    (case uploadFromBuffer os buffer name of
                       Inl err \<Rightarrow> Some (Inl err)
                     | Inr path \<Rightarrow>
                         Some (Inr (image_key c,
                                    \<lparr>url = staticUrl globalCfg @ path, filename = name\<rparr>))))))"

section \<open>The batch\<close>

text \<open>
  \<open>async.parallelLimit(tasks, limit, callback)\<close> is a collaborator too. It starts the
  first \<open>limit\<close> tasks and, each time a task calls back without an error, the next one
  that waits; the first task that calls back with an error ends the batch with that error,
  and when every task has called back without one the batch ends without an error. Which
  of the running tasks comes to its end next is not the program's choice: the schedule
  \<open>sched\<close> picks it (the pick is read modulo the number of running tasks, 0 when the list
  is used up). A task that throws instead of calling back ends the run: the exception is
  caught nowhere, and the final callback is not called.

  The state holds the entries whose tasks run, those that wait, the object \<open>images\<close>
  the tasks write to, and two logs: the entries in the order their tasks were started and
  the results in the order the tasks called back.
\<close>

record pool =
  running :: "variant list"
  waiting :: "variant list"
  images :: "string \<rightharpoonup> uploaded"
  dispatched :: "variant list"
  completed :: "(error + string \<times> uploaded) list"

text \<open>
  What the caller and an observer get: the arguments of \<open>cb\<close> (an error alone, or
  \<open>null\<close> and \<open>images\<close>; \<open>None\<close> when \<open>cb\<close> is never called), and the two logs.
\<close>

record outcome =
  result :: "(error + (string \<rightharpoonup> uploaded)) option"
  started :: "variant list"
  finished :: "(error + string \<times> uploaded) list"

text \<open>
  Line 121, \<open>images[c.key || c.name] = {...}\<close>, for the key and the entry of a task. The
  mapping holds the properties of \<open>images\<close> itself. \<open>images\<close> is a plain object, so an
  assignment under the key \<open>__proto__\<close> replaces its prototype and stores no property.
\<close>

definition store :: "(string \<rightharpoonup> uploaded) \<Rightarrow> string \<times> uploaded \<Rightarrow> (string \<rightharpoonup> uploaded)" where
  "store imgs kr = (if fst kr = ''__proto__'' then imgs else imgs(fst kr \<mapsto> snd kr))"

definition pick :: "nat list \<Rightarrow> nat \<Rightarrow> nat" where
  "pick sched n = (case sched of [] \<Rightarrow> 0 | s # ss \<Rightarrow> s mod n)"

function parallelLimit_loop ::
  "(variant \<Rightarrow> (error + string \<times> uploaded) option) \<Rightarrow> nat list \<Rightarrow> pool \<Rightarrow> outcome" where
  "parallelLimit_loop run sched p =
     (if running p = []
      then \<lparr>result = Some (Inr (images p)), started = dispatched p, finished = completed p\<rparr>
      else (let i = pick sched (length (running p));
                c = running p ! i
            in case run c of
                 None \<Rightarrow>
                   \<lparr>result = None, started = dispatched p, finished = completed p\<rparr>
               | Some (Inl err) \<Rightarrow>
                   \<lparr>result = Some (Inl err), started = dispatched p,
                    finished = completed p @ [Inl err]\<rparr>
               | Some (Inr kr) \<Rightarrow>
                   parallelLimit_loop run (tl sched)
                     \<lparr>running = take i (running p) @ drop (Suc i) (running p) @ take 1 (waiting p),
                      waiting = drop 1 (waiting p),
                      images = store (images p) kr,
                      dispatched = dispatched p @ take 1 (waiting p),
                      completed = completed p @ [Inr kr]\<rparr>))"
  by pat_completeness auto

termination
proof (relation "measure (\<lambda>(run, sched, p). length (running p) + length (waiting p))")
  show "wf (measure (\<lambda>(run, sched, p). length (running p) + length (waiting p)))"
    by simp
next
  fix run :: "variant \<Rightarrow> (error + string \<times> uploaded) option" and sched :: "nat list" and p :: pool
    and i c kr
  assume ne: "running p \<noteq> []" and i: "i = pick sched (length (running p))"
  have "i < length (running p)"
    using ne by (simp add: i pick_def split: list.splits)
  then show "((run, tl sched,
        \<lparr>running = take i (running p) @ drop (Suc i) (running p) @ take 1 (waiting p),
         waiting = drop 1 (waiting p), images = store (images p) kr,
         dispatched = dispatched p @ take 1 (waiting p),
         completed = completed p @ [Inr kr]\<rparr>),
       run, sched, p)
      \<in> measure (\<lambda>(run, sched, p). length (running p) + length (waiting p))"
    using ne by (cases "waiting p") auto
qed

declare parallelLimit_loop.simps [simp del]

definition parallelLimit ::
  "(variant \<Rightarrow> (error + string \<times> uploaded) option) \<Rightarrow> variant list \<Rightarrow> nat \<Rightarrow> nat list \<Rightarrow> outcome" where
  "parallelLimit run tasks limit sched =
     parallelLimit_loop run sched
       \<lparr>running = take limit tasks, waiting = drop limit tasks, images = Map.empty,
        dispatched = take limit tasks, completed = []\<rparr>"

text \<open>\<open>globalConfig.resizeLimit || 8\<close>.\<close>

definition resize_limit :: "globalConfig \<Rightarrow> nat" where
  "resize_limit globalCfg =
     (case resizeLimit globalCfg of None \<Rightarrow> 8 | Some n \<Rightarrow> if n = 0 then 8 else n)"

text \<open>An \<open>upload\<close> that returns at line 44 or 47: \<open>cb(err)\<close>, and no task was pushed.\<close>

definition refused :: "error \<Rightarrow> outcome" where
  "refused err = \<lparr>result = Some (Inl err), started = [], finished = []\<rparr>"

definition upload :: "collaborators \<Rightarrow> globalConfig \<Rightarrow> nat list \<Rightarrow> source \<Rightarrow> config \<Rightarrow> outcome" where
  "upload os globalCfg sched source config =
     (case source_type source of
        None \<Rightarrow> refused UnknownType
      | Some type \<Rightarrow>
          (if type = [] then refused UnknownType
           else (case cfg_files config of
                   FilesUndefined \<Rightarrow> refused InvalidConfig
                 | FilesNotArray \<Rightarrow> refused InvalidConfig
                 | FilesArray cs \<Rightarrow>
                     parallelLimit (task os globalCfg source type config) cs
                       (resize_limit globalCfg) sched)))"

section \<open>The region of a crop\<close>

text \<open>
  The left and top of \<open>crop(left, top, right, bottom)\<close> are its first two arguments. Which
  region \<open>crop(width, height)\<close> cuts out of a canvas is decided by the codec, outside the
  repository: \<open>crop2_origin\<close>, a parameter, gives the left and top of that region from the
  size of the canvas and the two arguments.
\<close>

definition crop_offsets ::
  "(jsnum \<times> jsnum \<Rightarrow> arg \<times> arg \<Rightarrow> jsnum \<times> jsnum) \<Rightarrow> jsnum \<times> jsnum \<Rightarrow> operation
    \<Rightarrow> (jsnum \<times> jsnum) option" where
  "crop_offsets crop2_origin canvas operation =
     (case operation of
        Crop4 l t r b \<Rightarrow> Some (l, t)
      | Crop2 w h \<Rightarrow> Some (crop2_origin canvas (w, h))
      | _ \<Rightarrow> None)"

text \<open>
  The codec the source documents: its comments call the crop without offsets centred
  (line 23, \<open>le crop est centre si omis\<close>, accents dropped; line 98). The region of the given size in the
  middle of the canvas starts at half the difference of the sizes, rounded down.
\<close>

definition centred_origin :: "jsnum \<times> jsnum \<Rightarrow> arg \<times> arg \<Rightarrow> jsnum \<times> jsnum" where
  "centred_origin canvas cropped =
     (case (canvas, cropped) of
        ((Fin cw, Fin ch), (Number (Fin w), Number (Fin h))) \<Rightarrow>
          (Fin (of_int \<lfloor>(cw - w) / 2\<rfloor>), Fin (of_int \<lfloor>(ch - h) / 2\<rfloor>))
      | _ \<Rightarrow> (NaN, NaN))"

section \<open>Concrete inputs\<close>

text \<open>
  Collaborators that always succeed, for evaluating the program: every source decodes to
  an 800 x 600 image, the encoder returns an empty buffer, a template without placeholders
  compiles to itself, and the storage answers with the path \<open>/filename\<close>.
\<close>

definition example_os :: collaborators where
  "example_os =
     \<lparr>lwip_open = (\<lambda>src type. Inr \<lparr>imageWidth = num 800, imageHeight = num 600\<rparr>),
      toBuffer = (\<lambda>img ops type. Inr []),
      template = (\<lambda>format c. Some format),
      uploadFromBuffer = (\<lambda>buffer filename. Inr (''/'' @ filename))\<rparr>"

definition example_global :: globalConfig where
  "example_global = \<lparr>staticUrl = ''http://static'', resizeLimit = None\<rparr>"

text \<open>The entry \<open>{name: 'thumb', format: 'thumb', width: 100, height: 100, crop: true}\<close>.\<close>

definition thumb :: variant where
  "thumb =
     \<lparr>c_key = None, c_name = Some ''thumb'', c_format = Some ''thumb'',
      c_width = Some (num 100), c_height = Some (num 100), c_top = None, c_left = None,
      c_crop = True, c_adapt = None, c_omitExtension = False, c_colorPad = None\<rparr>"


definition example_config :: "files \<Rightarrow> config" where
  "example_config fs =
     \<lparr>cfg_format = None, cfg_omitExtension = False, cfg_colorPad = None, cfg_files = fs\<rparr>"

section \<open>The batch: what the caller receives\<close>



lemma loop_done:
  "running p = [] \<Longrightarrow>
     parallelLimit_loop run sched p =
       \<lparr>result = Some (Inr (images p)), started = dispatched p, finished = completed p\<rparr>"
  by (simp add: parallelLimit_loop.simps [of run sched p])




















text \<open>
  C2, as stated, fails for the empty list: \<open>files: []\<close> is an array, passes line 46, and
  the call succeeds with the empty mapping.
\<close>

theorem upload_empty_files_counterexample:
  "upload example_os example_global [] (SourcePath ''photo.jpg'') (example_config (FilesArray []))
     = \<lparr>result = Some (Inr Map.empty), started = [], finished = []\<rparr>"
  by (simp add: upload_def source_type_def split_pop_def example_config_def parallelLimit_def
      loop_done)

text \<open>
  C2, amended. When the source has a type and \<open>config.files\<close> is left out or is no array,
  the call fails with the error of line 47, no task is started or run and no mapping is
  produced; an empty array is accepted and gives the empty mapping, again without a task.
\<close>

theorem upload_refuses_missing_files:
  assumes "source_type source = Some type" and "type \<noteq> []"
  shows "(cfg_files config = FilesUndefined \<or> cfg_files config = FilesNotArray \<longrightarrow>
            upload os globalCfg sched source config =
              \<lparr>result = Some (Inl InvalidConfig), started = [], finished = []\<rparr>) \<and>
         (cfg_files config = FilesArray [] \<longrightarrow>
            upload os globalCfg sched source config =
              \<lparr>result = Some (Inr Map.empty), started = [], finished = []\<rparr>)"
  using assms
  by (auto simp: upload_def refused_def parallelLimit_def loop_done)

theorem upload_refuses_missing_files_witness:
  "source_type (SourcePath ''photo.jpg'') = Some ''jpg'' \<and> ''jpg'' \<noteq> [] \<and>
   upload example_os example_global [] (SourcePath ''photo.jpg'') (example_config FilesUndefined) =
     \<lparr>result = Some (Inl InvalidConfig), started = [], finished = []\<rparr> \<and>
   upload example_os example_global [] (SourcePath ''photo.jpg'') (example_config (FilesArray [])) =
     \<lparr>result = Some (Inr Map.empty), started = [], finished = []\<rparr>"
proof -
  have h1: "source_type (SourcePath ''photo.jpg'') = Some ''jpg''"
    by (simp add: source_type_def split_pop_def)
  have h2: "''jpg'' \<noteq> []"
    by simp
  have "cfg_files (example_config FilesUndefined) = FilesUndefined"
    and "cfg_files (example_config (FilesArray [])) = FilesArray []"
    by (simp_all add: example_config_def)
  then show ?thesis
    using h1 h2
      upload_refuses_missing_files [OF h1 h2, of "example_config FilesUndefined"
        example_os example_global "[]"]
      upload_refuses_missing_files [OF h1 h2, of "example_config (FilesArray [])"
        example_os example_global "[]"]
    by blast
qed

text \<open>
  C10. An entry whose \<open>width\<close> and \<open>height\<close> are both left out or 0 queues no operation,
  whatever its \<open>crop\<close> flag says: its task decodes the source, encodes the unchanged image
  to the source type and uploads it.
\<close>

theorem no_dimensions_no_operations:
  assumes "c_width c = None \<or> c_width c = Some (Fin 0)"
    and "c_height c = None \<or> c_height c = Some (Fin 0)"
  shows "batch_operations img config c = [] \<and>
         task os globalCfg source type config c =
           (case lwip_open os (open_argument source) type of
              Inl err \<Rightarrow> Some (Inl err)
            | Inr decoded \<Rightarrow>
                (case toBuffer os decoded [] type of
                   Inl err \<Rightarrow> Some (Inl err)
                 | Inr buffer \<Rightarrow>
                     (case upload_filename os type config c of
                        None \<Rightarrow> None
                      | Some name \<Rightarrow>
                          (case uploadFromBuffer os buffer name of
                             Inl err \<Rightarrow> Some (Inl err)
                           | Inr path \<Rightarrow>
                               Some (Inr (image_key c,
                                 \<lparr>url = staticUrl globalCfg @ path, filename = name\<rparr>))))))"
proof -
  have none: "or_false (c_width c) = None" "or_false (c_height c) = None"
    using assms by (auto simp: or_false_def truthy_def)
  have ops: "batch_operations decoded config c = []" for decoded
    by (simp add: batch_operations_def none Let_def)
  show ?thesis
    by (simp add: ops task_def split: sum.splits option.splits)
qed

theorem no_dimensions_no_operations_witness:
  "(c_width (thumb\<lparr>c_width := None, c_height := Some (Fin 0)\<rparr>) = None \<or>
      c_width (thumb\<lparr>c_width := None, c_height := Some (Fin 0)\<rparr>) = Some (Fin 0)) \<and>
   (c_height (thumb\<lparr>c_width := None, c_height := Some (Fin 0)\<rparr>) = None \<or>
      c_height (thumb\<lparr>c_width := None, c_height := Some (Fin 0)\<rparr>) = Some (Fin 0)) \<and>
   c_crop (thumb\<lparr>c_width := None, c_height := Some (Fin 0)\<rparr>) \<and>
   batch_operations \<lparr>imageWidth = num 800, imageHeight = num 600\<rparr> (example_config FilesUndefined)
     (thumb\<lparr>c_width := None, c_height := Some (Fin 0)\<rparr>) = []"
proof -
  have h1: "c_width (thumb\<lparr>c_width := None, c_height := Some (Fin 0)\<rparr>) = None \<or>
      c_width (thumb\<lparr>c_width := None, c_height := Some (Fin 0)\<rparr>) = Some (Fin 0)"
    by simp
  have h2: "c_height (thumb\<lparr>c_width := None, c_height := Some (Fin 0)\<rparr>) = None \<or>
      c_height (thumb\<lparr>c_width := None, c_height := Some (Fin 0)\<rparr>) = Some (Fin 0)"
    by simp
  have h3: "c_crop (thumb\<lparr>c_width := None, c_height := Some (Fin 0)\<rparr>)"
    by (simp add: thumb_def)
  from no_dimensions_no_operations [OF h1 h2] h1 h2 h3 show ?thesis
    by blast
qed


section \<open>Names and keys\<close>







section \<open>Evaluating the planners\<close>

lemma floor_rat_numeral_div: "\<lfloor>(numeral a :: rat) / numeral b\<rfloor> = numeral a div numeral b"
  by (metis floor_divide_of_int_eq of_int_numeral)

lemma floor_rat_one_div: "\<lfloor>(1 :: rat) / numeral b\<rfloor> = 1 div numeral b"
  by (metis floor_divide_of_int_eq of_int_numeral of_int_1)

lemma ceiling_rat_numeral_div: "\<lceil>(numeral a :: rat) / numeral b\<rceil> = - (- numeral a div numeral b)"
  by (metis ceiling_divide_eq_div of_int_numeral)

lemmas number_eval =
  fl_def round_pos_def ilog2_def pow2_def rne_def bit_length.simps num_def jgt_def jge_def
  Let_def floor_rat_numeral_div floor_rat_one_div ceiling_rat_numeral_div

lemmas variant_eval =
  batch_operations_def or_false_def or_zero_def as_arg_def as_number_def truthy_def
  adapt_truthy_def str_or_def thumb_def example_config_def

text \<open>
  C1, at a 100 x 100 image in a 200 x 100 box. The container ratio 2 is above the image
  ratio 1 and the two heights are equal, so neither \<open>if\<close> of the first branch runs and the
  box itself is returned: the width 200 is twice the natural width.
\<close>

theorem adaptDimensions_equal_heights_upscales:
  "adaptDimensions \<lparr>imageWidth = num 100, imageHeight = num 100\<rparr> (num 200) (num 100)
     = \<lparr>dim_width = num 200, dim_height = num 100\<rparr>"
  by (simp add: adaptDimensions_def number_eval)

section \<open>Rounding to binary64\<close>

lemma pow2_power_int: "pow2 k = power_int 2 k"
  by (simp add: pow2_def power_int_def power_inverse inverse_eq_divide power_one_over)

lemma pow2_pos: "0 < pow2 k"
  by (simp add: pow2_power_int)

lemma pow2_add: "pow2 (a + b) = pow2 a * pow2 b"
  by (simp add: pow2_power_int power_int_add)

lemma pow2_less: "a < b \<Longrightarrow> pow2 a < pow2 b"
  by (simp add: pow2_power_int power_int_strict_increasing)

lemma pow2_le: "a \<le> b \<Longrightarrow> pow2 a \<le> pow2 b"
  by (simp add: pow2_power_int power_int_increasing)

lemma pow2_nat: "pow2 (int n) = 2 ^ n"
  by (simp add: pow2_def)

lemma pow2_less_imp: "pow2 a < pow2 b \<Longrightarrow> a < b"
  using pow2_le [of b a] by (cases "a < b") auto

lemma bit_length_bounds:
  "0 < n \<Longrightarrow> 2 ^ (bit_length n - 1) \<le> n \<and> n < 2 ^ bit_length n"
proof (induction n rule: bit_length.induct)
  case (1 n)
  show ?case
  proof (cases "n div 2 = 0")
    case True
    with "1.prems" have "n = 1"
      by presburger
    then show ?thesis
      by (simp add: bit_length.simps)
  next
    case False
    then have pos: "0 < n div 2"
      by simp
    define b where "b = bit_length (n div 2)"
    from "1.IH" [OF _ pos] "1.prems" have IH: "2 ^ (b - 1) \<le> n div 2" "n div 2 < 2 ^ b"
      by (simp_all add: b_def)
    have b: "0 < b"
      using pos by (simp add: b_def bit_length.simps [of "n div 2"])
    have len: "bit_length n = Suc b"
      using "1.prems" by (simp add: b_def bit_length.simps [of n])
    have "(2::nat) ^ b = 2 * 2 ^ (b - 1)"
      using b by (cases b) simp_all
    moreover have "(2::nat) * 2 ^ (b - 1) \<le> 2 * (n div 2)"
      using IH(1) by simp
    moreover have "2 * (n div 2) \<le> n"
      by simp
    ultimately have lo: "(2::nat) ^ b \<le> n"
      by linarith
    have "Suc (n div 2) \<le> 2 ^ b"
      using IH(2) by simp
    then have "2 * Suc (n div 2) \<le> 2 * 2 ^ b"
      by simp
    moreover have "n < 2 * Suc (n div 2)"
      by presburger
    ultimately have hi: "n < 2 ^ Suc b"
      by simp
    from lo hi show ?thesis
      by (simp add: len)
  qed
qed

lemma bit_length_pos: "0 < n \<Longrightarrow> 0 < bit_length n"
  by (simp add: bit_length.simps [of n])

lemma ilog2_bounds:
  assumes "0 < x"
  shows "pow2 (ilog2 x) \<le> x \<and> x < pow2 (ilog2 x + 1)"
proof (cases "1 \<le> x")
  case True
  define n where "n = nat \<lfloor>x\<rfloor>"
  have fl: "1 \<le> \<lfloor>x\<rfloor>"
    using True by simp
  then have n: "0 < n" "of_nat n = (of_int \<lfloor>x\<rfloor> :: rat)"
    by (simp_all add: n_def)
  define b where "b = bit_length n"
  have b: "0 < b"
    using n(1) by (simp add: b_def bit_length_pos)
  from bit_length_bounds [OF n(1)] have bb: "2 ^ (b - 1) \<le> n" "n < 2 ^ b"
    by (simp_all add: b_def)
  have e: "ilog2 x = int (b - 1)"
    using True b by (simp add: ilog2_def b_def n_def)
  have "(2::rat) ^ (b - 1) \<le> of_nat n"
    using bb(1) by (metis of_nat_le_iff of_nat_numeral of_nat_power)
  also have "\<dots> \<le> x"
    by (simp add: n(2))
  finally have lo: "pow2 (ilog2 x) \<le> x"
    by (simp add: e pow2_nat)
  have "\<lfloor>x\<rfloor> + 1 \<le> 2 ^ b"
  proof -
    have "Suc n \<le> 2 ^ b"
      using bb(2) by simp
    then have "int (Suc n) \<le> int (2 ^ b)"
      by (simp only: of_nat_le_iff)
    then have "int n + 1 \<le> 2 ^ b"
      by simp
    then show ?thesis
      using fl by (simp add: n_def)
  qed
  then have "(of_int (\<lfloor>x\<rfloor> + 1) :: rat) \<le> of_int (2 ^ b)"
    by (simp only: of_int_le_iff)
  moreover have "x < of_int (\<lfloor>x\<rfloor> + 1)"
    by simp linarith
  ultimately have "x < 2 ^ b"
    by simp
  moreover have "ilog2 x + 1 = int b"
    using b by (simp add: e)
  ultimately have hi: "x < pow2 (ilog2 x + 1)"
    by (simp add: pow2_nat)
  from lo hi show ?thesis ..
next
  case False
  then have x1: "x < 1"
    by simp
  define y where "y = 1 / x"
  have y: "1 < y"
    using assms x1 by (simp add: y_def)
  then have c2: "2 \<le> \<lceil>y\<rceil>"
    by linarith
  define m where "m = nat (\<lceil>y\<rceil> - 1)"
  have m: "0 < m" "int m = \<lceil>y\<rceil> - 1"
    using c2 by (simp_all add: m_def)
  define b where "b = bit_length m"
  have b: "0 < b"
    using m(1) by (simp add: b_def bit_length_pos)
  from bit_length_bounds [OF m(1)] have bb: "2 ^ (b - 1) \<le> m" "m < 2 ^ b"
    by (simp_all add: b_def)
  have e: "ilog2 x = - int b"
    using False by (simp add: ilog2_def b_def m_def y_def)
  have "Suc m \<le> 2 ^ b"
    using bb(2) by simp
  then have "int (Suc m) \<le> int (2 ^ b)"
    by (simp only: of_nat_le_iff)
  then have "int m + 1 \<le> 2 ^ b"
    by simp
  then have "\<lceil>y\<rceil> \<le> 2 ^ b"
    by (simp add: m(2))
  then have "y \<le> of_int (2 ^ b)"
    by (simp only: ceiling_le_iff)
  then have "y \<le> 2 ^ b"
    by simp
  then have "1 \<le> 2 ^ b * x"
    using assms by (simp add: y_def field_simps)
  then have lo: "pow2 (ilog2 x) \<le> x"
    using assms b by (simp add: e pow2_def field_simps)
  have "(2::int) ^ (b - 1) \<le> int m"
    using bb(1) by (metis of_nat_le_iff of_nat_numeral of_nat_power)
  then have "(of_int (2 ^ (b - 1)) :: rat) \<le> of_int (\<lceil>y\<rceil> - 1)"
    by (simp only: of_int_le_iff m(2))
  moreover have "of_int (\<lceil>y\<rceil> - 1) < y"
    by simp linarith
  ultimately have "2 ^ (b - 1) < y"
    by simp
  then have "2 ^ (b - 1) * x < 1"
    using assms by (simp add: y_def field_simps)
  then have "x < 1 / 2 ^ (b - 1)"
    by (simp add: field_simps)
  moreover have "pow2 (ilog2 x + 1) = 1 / 2 ^ (b - 1)"
  proof (cases "b = 1")
    case True
    then show ?thesis
      by (simp add: e pow2_def)
  next
    case False
    with b have "1 < b"
      by simp
    then have "nat (int b - 1) = b - 1" "\<not> 0 \<le> 1 - int b"
      by simp_all
    then show ?thesis
      by (simp add: e pow2_def)
  qed
  ultimately have hi: "x < pow2 (ilog2 x + 1)"
    by simp
  from lo hi show ?thesis ..
qed

lemma rne_error: "\<bar>of_int (rne m) - m\<bar> \<le> 1 / 2"
proof -
  have "of_int \<lfloor>m\<rfloor> \<le> m" "m < of_int \<lfloor>m\<rfloor> + 1"
    by linarith+
  then show ?thesis
    by (auto simp: rne_def Let_def)
qed



lemma round_pos_normal:
  assumes "pow2 (- 1022) \<le> x"
  shows "round_pos x = of_int (rne (x / pow2 (ilog2 x - 52))) * pow2 (ilog2 x - 52)"
    and "pow2 (ilog2 x) \<le> x"
proof -
  have x: "0 < x"
    using assms pow2_pos [of "- 1022"] by linarith
  from ilog2_bounds [OF x] have b: "pow2 (ilog2 x) \<le> x" "x < pow2 (ilog2 x + 1)"
    by simp_all
  from assms b(2) have "pow2 (- 1022) < pow2 (ilog2 x + 1)"
    by linarith
  then have "- 1022 < ilog2 x + 1"
    by (rule pow2_less_imp)
  then have "max (ilog2 x - 52) (- 1074) = ilog2 x - 52"
    by simp
  then show "round_pos x = of_int (rne (x / pow2 (ilog2 x - 52))) * pow2 (ilog2 x - 52)"
    by (simp add: round_pos_def Let_def)
  show "pow2 (ilog2 x) \<le> x"
    by (rule b(1))
qed

lemma round_pos_error:
  assumes "pow2 (- 1022) \<le> x"
  shows "\<bar>round_pos x - x\<bar> \<le> x / 2 ^ 53"
proof -
  define p where "p = ilog2 x - 52"
  define m where "m = x / pow2 p"
  have pp: "0 < pow2 p"
    by (rule pow2_pos)
  have r: "round_pos x = of_int (rne m) * pow2 p"
    unfolding m_def p_def by (rule round_pos_normal(1) [OF assms])
  have xm: "x = m * pow2 p"
    using pp by (simp add: m_def)
  have "round_pos x - x = of_int (rne m) * pow2 p - m * pow2 p"
    by (simp only: r xm [symmetric])
  also have "\<dots> = (of_int (rne m) - m) * pow2 p"
    by (simp add: algebra_simps)
  finally have "\<bar>round_pos x - x\<bar> = \<bar>of_int (rne m) - m\<bar> * pow2 p"
    using pp by (simp add: abs_mult)
  also have "\<dots> \<le> (1 / 2) * pow2 p"
    using rne_error [of m] pp by (intro mult_right_mono) simp_all
  also have "pow2 p = pow2 (ilog2 x) * pow2 (- 52)"
    unfolding p_def using pow2_add [of "ilog2 x" "- 52"] by simp
  also have "(1 / 2) * (pow2 (ilog2 x) * pow2 (- 52)) = pow2 (ilog2 x) / 2 ^ 53"
    by (simp add: pow2_def)
  also have "\<dots> \<le> x / 2 ^ 53"
    using round_pos_normal(2) [OF assms] by (simp add: divide_right_mono)
  finally show ?thesis .
qed

lemma fl_normal:
  assumes "pow2 (- 1022) \<le> x" and "x < pow2 1023"
  shows "\<exists>r. fl x = Fin r \<and> \<bar>r - x\<bar> \<le> x / 2 ^ 53"
proof -
  have x: "0 < x"
    using assms(1) pow2_pos [of "- 1022"] by linarith
  have e: "\<bar>round_pos x - x\<bar> \<le> x / 2 ^ 53"
    by (rule round_pos_error [OF assms(1)])
  have "x / 2 ^ 53 \<le> x"
    using x by (simp add: field_simps)
  with e have "round_pos x \<le> 2 * x"
    by linarith
  also have "\<dots> < 2 * pow2 1023"
    using assms(2) by simp
  also have "2 * pow2 1023 = pow2 1024"
    using pow2_add [of 1 1023] by (simp add: pow2_def)
  finally have "\<not> pow2 1024 \<le> round_pos x"
    by simp
  then have "fl x = Fin (round_pos x)"
    using x by (simp add: fl_def)
  with e show ?thesis
    by blast
qed

text \<open>
  In the range of the planners: the result of an operation is finite and differs from
  the exact value by a relative error of at most \<open>2 ^ -53\<close>.
\<close>

lemma fl_mid:
  assumes "1 / 2 ^ 100 \<le> x" and "x \<le> 2 ^ 100"
  shows "\<exists>r. fl x = Fin r \<and> x - x / 2 ^ 53 \<le> r \<and> r \<le> x + x / 2 ^ 53"
proof -
  have "pow2 (- 1022) \<le> pow2 (- 100)"
    by (rule pow2_le) simp
  also have "pow2 (- 100) = 1 / 2 ^ 100"
    by (simp add: pow2_def)
  finally have lo: "pow2 (- 1022) \<le> x"
    using assms(1) by linarith
  have "pow2 100 < pow2 1023"
    by (rule pow2_less) simp
  moreover have "pow2 100 = 2 ^ 100"
    by (simp add: pow2_def)
  ultimately have hi: "x < pow2 1023"
    using assms(2) by linarith
  from fl_normal [OF lo hi] obtain r where r: "fl x = Fin r" "\<bar>r - x\<bar> \<le> x / 2 ^ 53"
    by blast
  from r(2) have "x - x / 2 ^ 53 \<le> r \<and> r \<le> x + x / 2 ^ 53"
    by linarith
  with r(1) show ?thesis
    by blast
qed





section \<open>The crop pass\<close>

lemma or_zero_gt: "jgt (or_zero v) (Fin 0) \<longleftrightarrow> (\<exists>t. v = Some t \<and> jgt t (Fin 0))"
  by (cases v) (auto simp: or_zero_def jgt_def truthy_def)

lemma or_zero_verbatim: "v = Some t \<Longrightarrow> t \<noteq> NaN \<Longrightarrow> or_zero v = t"
  by (auto simp: or_zero_def truthy_def)

lemma crop_pass:
  assumes "c_crop c" and "or_false (c_width c) \<noteq> None \<or> or_false (c_height c) \<noteq> None"
  shows "last (batch_operations img config c) =
     (if jgt (or_zero (c_top c)) (Fin 0) \<or> jgt (or_zero (c_left c)) (Fin 0)
      then Crop4 (or_zero (c_left c)) (or_zero (c_top c))
             (jadd (or_zero (c_left c)) (as_number (or_false (c_width c))))
             (jadd (or_zero (c_top c)) (as_number (or_false (c_height c))))
      else Crop2 (as_arg (or_false (c_width c))) (as_arg (or_false (c_height c))))"
  using assms by (auto simp: batch_operations_def Let_def split: option.splits)

lemma or_false_Some: "or_false v \<noteq> None \<longleftrightarrow> (\<exists>n. v = Some n \<and> truthy n)"
  by (cases v) (auto simp: or_false_def)

text \<open>
  C6, as stated, does not hold of the code: without offsets the entry \<open>thumb\<close> queues
  \<open>crop(100, 100)\<close> on the 133 x 100 canvas and passes no offset. Which region that is
  depends on the codec, and with the codec the source documents (a centred crop) it
  starts at left 16, not at the origin.
\<close>

theorem default_crop_region_counterexample:
  "batch_operations \<lparr>imageWidth = num 800, imageHeight = num 600\<rparr> (example_config FilesUndefined)
     thumb
     = [Resize (num 133) (num 100), Crop2 (Number (num 100)) (Number (num 100))]
   \<and> crop_offsets centred_origin (num 133, num 100) (Crop2 (Number (num 100)) (Number (num 100)))
     = Some (num 16, num 0)"
  by (simp add: variant_eval getCropDimensions_def number_eval crop_offsets_def centred_origin_def)

text \<open>
  C6, amended. In a crop pass (the entry has \<open>crop\<close> and a width or a height), when
  neither requested offset is greater than zero the code queues the codec's
  \<open>crop(width, height)\<close> and passes no offset: the region is the one the codec takes for
  that call, whatever the codec. When the requested top or left is greater than zero, it
  queues \<open>crop(left, top, left + width, top + height)\<close>, whose left and top are the
  requested offsets as they are (0 for one that is left out).
\<close>

theorem crop_pass_offsets:
  assumes "c_crop c"
    and "(\<exists>w. c_width c = Some w \<and> truthy w) \<or> (\<exists>h. c_height c = Some h \<and> truthy h)"
  shows "((\<forall>t. c_top c = Some t \<longrightarrow> \<not> jgt t (Fin 0)) \<and> (\<forall>l. c_left c = Some l \<longrightarrow> \<not> jgt l (Fin 0)) \<longrightarrow>
            last (batch_operations img config c) =
              Crop2 (as_arg (or_false (c_width c))) (as_arg (or_false (c_height c))) \<and>
            crop_offsets crop2_origin canvas (last (batch_operations img config c)) =
              Some (crop2_origin canvas
                      (as_arg (or_false (c_width c)), as_arg (or_false (c_height c))))) \<and>
         ((\<exists>t. c_top c = Some t \<and> jgt t (Fin 0)) \<or> (\<exists>l. c_left c = Some l \<and> jgt l (Fin 0)) \<longrightarrow>
            last (batch_operations img config c) =
              Crop4 (or_zero (c_left c)) (or_zero (c_top c))
                (jadd (or_zero (c_left c)) (as_number (or_false (c_width c))))
                (jadd (or_zero (c_top c)) (as_number (or_false (c_height c)))) \<and>
            crop_offsets crop2_origin canvas (last (batch_operations img config c)) =
              Some (or_zero (c_left c), or_zero (c_top c)) \<and>
            (\<forall>t. c_top c = Some t \<and> t \<noteq> NaN \<longrightarrow> or_zero (c_top c) = t) \<and>
            (\<forall>l. c_left c = Some l \<and> l \<noteq> NaN \<longrightarrow> or_zero (c_left c) = l))"
proof -
  have dims: "or_false (c_width c) \<noteq> None \<or> or_false (c_height c) \<noteq> None"
    using assms(2) unfolding or_false_Some .
  note pass = crop_pass [OF assms(1) dims, of img config]
  have a: "last (batch_operations img config c) =
        Crop2 (as_arg (or_false (c_width c))) (as_arg (or_false (c_height c))) \<and>
      crop_offsets crop2_origin canvas (last (batch_operations img config c)) =
        Some (crop2_origin canvas (as_arg (or_false (c_width c)), as_arg (or_false (c_height c))))"
    if "\<forall>t. c_top c = Some t \<longrightarrow> \<not> jgt t (Fin 0)" "\<forall>l. c_left c = Some l \<longrightarrow> \<not> jgt l (Fin 0)"
  proof -
    from that have "\<not> jgt (or_zero (c_top c)) (Fin 0)" "\<not> jgt (or_zero (c_left c)) (Fin 0)"
      by (simp_all add: or_zero_gt)
    then show ?thesis
      by (simp add: pass crop_offsets_def)
  qed
  have b: "last (batch_operations img config c) =
        Crop4 (or_zero (c_left c)) (or_zero (c_top c))
          (jadd (or_zero (c_left c)) (as_number (or_false (c_width c))))
          (jadd (or_zero (c_top c)) (as_number (or_false (c_height c)))) \<and>
      crop_offsets crop2_origin canvas (last (batch_operations img config c)) =
        Some (or_zero (c_left c), or_zero (c_top c))"
    if "(\<exists>t. c_top c = Some t \<and> jgt t (Fin 0)) \<or> (\<exists>l. c_left c = Some l \<and> jgt l (Fin 0))"
  proof -
    from that have "jgt (or_zero (c_top c)) (Fin 0) \<or> jgt (or_zero (c_left c)) (Fin 0)"
      by (simp add: or_zero_gt)
    then show ?thesis
      by (simp add: pass crop_offsets_def)
  qed
  have v: "(\<forall>t. c_top c = Some t \<and> t \<noteq> NaN \<longrightarrow> or_zero (c_top c) = t) \<and>
      (\<forall>l. c_left c = Some l \<and> l \<noteq> NaN \<longrightarrow> or_zero (c_left c) = l)"
    by (simp add: or_zero_verbatim)
  from a b v show ?thesis
    by blast
qed

theorem crop_pass_offsets_witness:
  "c_crop thumb \<and>
   ((\<exists>w. c_width thumb = Some w \<and> truthy w) \<or> (\<exists>h. c_height thumb = Some h \<and> truthy h)) \<and>
   last (batch_operations \<lparr>imageWidth = num 800, imageHeight = num 600\<rparr>
           (example_config FilesUndefined) thumb)
     = Crop2 (Number (num 100)) (Number (num 100)) \<and>
   last (batch_operations \<lparr>imageWidth = num 800, imageHeight = num 600\<rparr>
           (example_config FilesUndefined) (thumb\<lparr>c_top := Some (num 10), c_left := Some (num 5)\<rparr>))
     = Crop4 (num 5) (num 10) (jadd (num 5) (num 100)) (jadd (num 10) (num 100))"
proof -
  have h1: "c_crop thumb" "c_crop (thumb\<lparr>c_top := Some (num 10), c_left := Some (num 5)\<rparr>)"
    by (simp_all add: thumb_def)
  have h2: "(\<exists>w. c_width thumb = Some w \<and> truthy w) \<or> (\<exists>h. c_height thumb = Some h \<and> truthy h)"
    by (simp add: thumb_def truthy_def num_def)
  have h2': "(\<exists>w. c_width (thumb\<lparr>c_top := Some (num 10), c_left := Some (num 5)\<rparr>) = Some w \<and> truthy w)
      \<or> (\<exists>h. c_height (thumb\<lparr>c_top := Some (num 10), c_left := Some (num 5)\<rparr>) = Some h \<and> truthy h)"
    by (simp add: thumb_def truthy_def num_def)
  have p: "(\<forall>t. c_top thumb = Some t \<longrightarrow> \<not> jgt t (Fin 0)) \<and>
      (\<forall>l. c_left thumb = Some l \<longrightarrow> \<not> jgt l (Fin 0))"
    by (simp add: thumb_def)
  have q: "(\<exists>t. c_top (thumb\<lparr>c_top := Some (num 10), c_left := Some (num 5)\<rparr>) = Some t \<and> jgt t (Fin 0))
      \<or> (\<exists>l. c_left (thumb\<lparr>c_top := Some (num 10), c_left := Some (num 5)\<rparr>) = Some l \<and> jgt l (Fin 0))"
    by (simp add: jgt_def num_def)
  have e: "as_arg (or_false (c_width thumb)) = Number (num 100)"
      "as_arg (or_false (c_height thumb)) = Number (num 100)"
      "or_zero (c_left (thumb\<lparr>c_top := Some (num 10), c_left := Some (num 5)\<rparr>)) = num 5"
      "or_zero (c_top (thumb\<lparr>c_top := Some (num 10), c_left := Some (num 5)\<rparr>)) = num 10"
      "as_number (or_false (c_width (thumb\<lparr>c_top := Some (num 10), c_left := Some (num 5)\<rparr>))) = num 100"
      "as_number (or_false (c_height (thumb\<lparr>c_top := Some (num 10), c_left := Some (num 5)\<rparr>))) = num 100"
    by (simp_all add: thumb_def or_false_def or_zero_def as_arg_def as_number_def truthy_def num_def)
  from crop_pass_offsets [OF h1(1) h2, of "\<lparr>imageWidth = num 800, imageHeight = num 600\<rparr>"
      "example_config FilesUndefined" centred_origin "(num 133, num 100)"] p
  have a: "last (batch_operations \<lparr>imageWidth = num 800, imageHeight = num 600\<rparr>
           (example_config FilesUndefined) thumb)
     = Crop2 (Number (num 100)) (Number (num 100))"
    unfolding e by blast
  from crop_pass_offsets [OF h1(2) h2', of "\<lparr>imageWidth = num 800, imageHeight = num 600\<rparr>"
      "example_config FilesUndefined" centred_origin "(num 133, num 100)"] q
  have b: "last (batch_operations \<lparr>imageWidth = num 800, imageHeight = num 600\<rparr>
           (example_config FilesUndefined) (thumb\<lparr>c_top := Some (num 10), c_left := Some (num 5)\<rparr>))
     = Crop4 (num 5) (num 10) (jadd (num 5) (num 100)) (jadd (num 10) (num 100))"
    unfolding e by blast
  from h1(1) h2 a b show ?thesis
    by blast
qed

section \<open>The crop rectangle and the canvas\<close>







end
